theory Spec2Isabelle
  imports Complex_Main
begin

section \<open>Force-plate preprocessing: \<^verbatim>\<open>COP_functions.py\<close>\<close>

text \<open>
  A shallow embedding of \<^verbatim>\<open>ForcePlateProcessor\<close>
  (\<^verbatim>\<open>src/shared/force_preprocessing/COP_functions.py\<close>).
  Python strings are modelled as ASCII \<^typ>\<open>string\<close>s, Python's unbounded \<^verbatim>\<open>int\<close> as
  \<^typ>\<open>int\<close>, a \<^verbatim>\<open>float\<close> as a rational extended by the two infinities and NaN
  (every finite binary64 value is a rational; comparisons are exact on them).
  Exceptions are values of the type \<open>error\<close>; \<^verbatim>\<open>print\<close> and \<^verbatim>\<open>warnings.warn\<close>
  append to a list of events that every operation returns next to its result.
\<close>

subsection \<open>Exceptions, floats, output\<close>

datatype error =
    ValueError | IndexError | KeyError | ZeroDivisionError | OverflowError
  | OSError | UnicodeDecodeError

datatype pyfloat = Fin rat | PInf | NInf | NaN

text \<open>IEEE comparison of a float with a finite number: every comparison with NaN is false.\<close>

fun float_ge :: "pyfloat \<Rightarrow> rat \<Rightarrow> bool" where
  "float_ge (Fin x) c = (c \<le> x)"
| "float_ge PInf c = True"
| "float_ge NInf c = False"
| "float_ge NaN c = False"

fun float_le :: "pyfloat \<Rightarrow> rat \<Rightarrow> bool" where
  "float_le (Fin x) c = (x \<le> c)"
| "float_le PInf c = False"
| "float_le NInf c = True"
| "float_le NaN c = False"

text \<open>
  What the program writes: one constructor for each \<^verbatim>\<open>print\<close> and each
  \<^verbatim>\<open>warnings.warn\<close> of the source, carrying the values its message formats.
\<close>

datatype event =
    PrintProcessing string
  | PrintTotalRows nat
  | PrintCouldNotParseRate int
  | PrintCouldNotReadRate int
  | WarnRateMismatch int int
  | PrintCouldNotReadSubject
  | WarnInvalidSubject string
  | PrintUsingFilenameSubject string
  | PrintCouldNotReadTrial
  | WarnUnexpectedTrial string
  | PrintRowsParsed nat
  | PrintSamplesInWindow nat
  | WarnNoData int int
  | PrintFilteringCompleted
  | PrintErrorDetails error
  | PrintFoundBaseline nat
  | WarnBaselineNotFound string
  | PrintFoundIntervention nat
  | WarnInterventionNotFound string
  | PrintNoCsvFiles
  | PrintErrorProcessing string error
  | PrintComplete nat nat nat

subsection \<open>The library the program calls\<close>

text \<open>
  The parts of the interpreter and of SciPy whose numerical results are not fixed here:
  \<^item> \<open>float_of_str\<close> is the builtin \<^verbatim>\<open>float\<close> on a string, \<open>None\<close> when it raises
    \<^verbatim>\<open>ValueError\<close>;
  \<^item> \<open>rnd\<close> rounds an exact quotient to the nearest binary64 value;
  \<^item> \<open>filt_values N Wn x\<close> is the output of \<^verbatim>\<open>filtfilt\<close> with the coefficients of
    \<^verbatim>\<open>butter(N, Wn)\<close> on the signal \<open>x\<close>, when both calls succeed.
\<close>

record pylib =
  float_of_str :: "string \<Rightarrow> pyfloat option"
  rnd :: "rat \<Rightarrow> rat"
  filt_values :: "nat \<Rightarrow> rat \<Rightarrow> pyfloat list \<Rightarrow> pyfloat list"

subsection \<open>Strings and the regular expressions of the source\<close>

definition py_isspace :: "char \<Rightarrow> bool" where
  "py_isspace c = (c \<in> set [CHR 0x09, CHR 0x0A, CHR 0x0B, CHR 0x0C, CHR 0x0D,
                             CHR 0x1C, CHR 0x1D, CHR 0x1E, CHR 0x1F, CHR 0x20])"

definition py_strip :: "string \<Rightarrow> string" where
  "py_strip s = rev (dropWhile py_isspace (rev (dropWhile py_isspace s)))"

text \<open>\<^verbatim>\<open>str.split(',')\<close>: the empty string gives one empty cell.\<close>

fun split_comma :: "string \<Rightarrow> string list" where
  "split_comma [] = [[]]"
| "split_comma (c # cs) =
     (if c = CHR '','' then [] # split_comma cs
      else (case split_comma cs of
              [] \<Rightarrow> [[c]]
            | w # ws \<Rightarrow> (c # w) # ws))"

definition is_digit :: "char \<Rightarrow> bool" where
  "is_digit c = (c \<in> set ''0123456789'')"

definition digit_val :: "char \<Rightarrow> int" where
  "digit_val c = int (length (takeWhile (\<lambda>d. d \<noteq> c) ''0123456789''))"

text \<open>\<^verbatim>\<open>re.search(r'(\d+)', s)\<close>: the leftmost, longest run of digits, if there is one.\<close>

definition search_digits :: "string \<Rightarrow> string option" where
  "search_digits s =
     (let r = dropWhile (\<lambda>c. \<not> is_digit c) s
      in if r = [] then None else Some (takeWhile is_digit r))"

text \<open>
  \<^verbatim>\<open>int\<close> on a run of decimal digits. CPython refuses a string of more than
  \<open>int_max_str_digits\<close> digits with \<^verbatim>\<open>ValueError\<close> (the default of
  \<^verbatim>\<open>sys.set_int_max_str_digits\<close>).
\<close>

definition int_max_str_digits :: nat where
  "int_max_str_digits = 4300"

definition int_of_digits :: "string \<Rightarrow> error + int" where
  "int_of_digits ds =
     (if int_max_str_digits < length ds then Inl ValueError
      else Inr (foldl (\<lambda>n c. 10 * n + digit_val c) 0 ds))"

text \<open>The pattern \<^verbatim>\<open>exgm\d{3}\<close> at the start of a string.\<close>

definition exgm_prefix :: "string \<Rightarrow> bool" where
  "exgm_prefix s =
     (7 \<le> length s \<and> take 4 s = ''exgm'' \<and> list_all is_digit (take 3 (drop 4 s)))"

text \<open>\<^verbatim>\<open>re.search(r'exgm\d{3}', s)\<close>: the leftmost match.\<close>

fun search_exgm :: "string \<Rightarrow> string option" where
  "search_exgm [] = None"
| "search_exgm (c # cs) =
     (if exgm_prefix (c # cs) then Some (take 7 (c # cs)) else search_exgm cs)"

text \<open>
  \<^verbatim>\<open>$\<close> matches at the end of the string and also just before a newline that ends it.
\<close>

definition at_dollar :: "string \<Rightarrow> bool" where
  "at_dollar s = (s = [] \<or> s = [CHR 0x0A])"

text \<open>A literal matched under \<^verbatim>\<open>re.IGNORECASE\<close>: each position allows either case.\<close>

fun ci_prefix :: "(char \<times> char) list \<Rightarrow> string \<Rightarrow> string option" where
  "ci_prefix [] s = Some s"
| "ci_prefix ((l, u) # p) [] = None"
| "ci_prefix ((l, u) # p) (c # cs) = (if c = l \<or> c = u then ci_prefix p cs else None)"

definition trial_tail :: "string \<Rightarrow> bool" where
  "trial_tail s =
     (s \<noteq> [] \<and> py_isspace (hd s) \<and>
      (case dropWhile py_isspace s of
         a # b # c # r \<Rightarrow>
           a \<in> set ''12'' \<and> b = CHR ''-'' \<and> c \<in> set ''123'' \<and> at_dollar r
       | _ \<Rightarrow> False))"

subsection \<open>The processor\<close>

record TrialData =
  subject_id :: string
  trial_name :: string
  session :: string
  sampling_rate :: int
  time_raw :: "pyfloat list"
  ml_raw :: "pyfloat list"
  ap_raw :: "pyfloat list"
  time_trimmed :: "pyfloat list"
  ml_filtered :: "pyfloat list"
  ap_filtered :: "pyfloat list"

record ForcePlateProcessor =
  baseline_dir :: string
  intervention_dir :: string
  expected_sampling_rate :: int
  filter_cutoff :: int
  filter_order :: nat
  start_time :: int
  end_time :: int
  processed_data :: "string \<rightharpoonup> TrialData list"

definition init :: "string \<Rightarrow> string \<Rightarrow> ForcePlateProcessor" where
  "init b i =
     \<lparr> baseline_dir = b, intervention_dir = i, expected_sampling_rate = 1500,
       filter_cutoff = 5, filter_order = 4, start_time = 10, end_time = 30,
       processed_data = Map.empty \<rparr>"

definition validate_subject_id :: "string \<Rightarrow> bool" where
  "validate_subject_id s = (exgm_prefix s \<and> at_dollar (drop 7 s))"

definition validate_trial_name :: "string \<Rightarrow> bool" where
  "validate_trial_name s =
     (case ci_prefix (zip ''shoulder'' ''SHOULDER'') s of
        Some r \<Rightarrow> trial_tail r
      | None \<Rightarrow>
          (case ci_prefix (zip ''tandem'' ''TANDEM'') s of
             Some r \<Rightarrow> trial_tail r
           | None \<Rightarrow> False))"

subsection \<open>Sequencing of operations that may raise\<close>

definition on_ok :: "error + 'a \<Rightarrow> ('a \<Rightarrow> error + 'b) \<Rightarrow> error + 'b" where
  "on_ok r f = (case r of Inl e \<Rightarrow> Inl e | Inr v \<Rightarrow> f v)"

subsection \<open>Reading a file (lines 133--138)\<close>

text \<open>
  A file on disk: the last component of its path, and what opening it and iterating over
  its lines gives, the lines or the exception raised (a missing file, a decoding error).
\<close>

record csv_file =
  name :: string
  contents :: "error + string list"

definition tokenize :: "string \<Rightarrow> string list" where
  "tokenize line = map py_strip (split_comma (py_strip line))"

definition read_rows :: "csv_file \<Rightarrow> error + string list list" where
  "read_rows f = on_ok (contents f) (\<lambda>ls. Inr (map tokenize ls))"

subsection \<open>Metadata (lines 146--191)\<close>

definition get_metadata_row :: "string list list \<Rightarrow> string list" where
  "get_metadata_row all_data = (if 1 < length all_data then all_data ! 1 else [])"

text \<open>
  Lines 148--164. The handler catches \<^verbatim>\<open>ValueError\<close> and \<^verbatim>\<open>IndexError\<close>; any other
  exception of the body would leave the function.
\<close>

definition read_sampling_rate ::
  "ForcePlateProcessor \<Rightarrow> string list \<Rightarrow> event list \<times> (error + int)" where
  "read_sampling_rate self metadata_row =
     (let sampling_rate_str = (if 2 < length metadata_row then metadata_row ! 2 else [])
      in case search_digits sampling_rate_str of
           Some ds \<Rightarrow>
             (case int_of_digits ds of
                Inr n \<Rightarrow> ([], Inr n)
              | Inl e \<Rightarrow>
                  if e = ValueError \<or> e = IndexError
                  then ([PrintCouldNotReadRate (expected_sampling_rate self)],
                        Inr (expected_sampling_rate self))
                  else ([], Inl e))
         | None \<Rightarrow>
             ([PrintCouldNotParseRate (expected_sampling_rate self)],
              Inr (expected_sampling_rate self)))"

definition check_sampling_rate :: "ForcePlateProcessor \<Rightarrow> int \<Rightarrow> event list" where
  "check_sampling_rate self sr =
     (if sr \<noteq> expected_sampling_rate self
      then [WarnRateMismatch sr (expected_sampling_rate self)] else [])"

text \<open>
  Lines 166--180. The conditional expression guards the index, so the body of the
  \<^verbatim>\<open>try\<close> cannot raise and its handler (which would set \<^verbatim>\<open>"unknown"\<close>) is never run.
\<close>

definition read_subject_id :: "string \<Rightarrow> string list \<Rightarrow> event list \<times> string" where
  "read_subject_id filename metadata_row =
     (let subject_id = py_strip (if 7 < length metadata_row then metadata_row ! 7 else [])
      in if \<not> validate_subject_id subject_id
         then (case search_exgm filename of
                 Some m \<Rightarrow> ([WarnInvalidSubject subject_id, PrintUsingFilenameSubject m], m)
               | None \<Rightarrow> ([WarnInvalidSubject subject_id], subject_id))
         else ([], subject_id))"

text \<open>Lines 182--191, with the same guarded index and the same unreachable handler.\<close>

definition read_trial_name :: "string list \<Rightarrow> event list \<times> string" where
  "read_trial_name metadata_row =
     (let trial_name = py_strip (if 12 < length metadata_row then metadata_row ! 12 else [])
      in if \<not> validate_trial_name trial_name
         then ([WarnUnexpectedTrial trial_name], trial_name)
         else ([], trial_name))"

text \<open>The three fields together, in the order of the source.\<close>

definition parse_metadata ::
  "ForcePlateProcessor \<Rightarrow> string \<Rightarrow> string list list
     \<Rightarrow> event list \<times> (error + int \<times> string \<times> string)" where
  "parse_metadata self filename all_data =
     (let metadata_row = get_metadata_row all_data;
          (ev1, r) = read_sampling_rate self metadata_row
      in case r of
           Inl e \<Rightarrow> (ev1, Inl e)
         | Inr sr \<Rightarrow>
             (let ev2 = check_sampling_rate self sr;
                  (ev3, sid) = read_subject_id filename metadata_row;
                  (ev4, tn) = read_trial_name metadata_row
              in (ev1 @ ev2 @ ev3 @ ev4, Inr (sr, sid, tn))))"

subsection \<open>Signal extraction (lines 194--222)\<close>

definition get_data_rows :: "string list list \<Rightarrow> string list list" where
  "get_data_rows all_data = (if 4 < length all_data then drop 4 all_data else [])"

text \<open>\<^verbatim>\<open>float(c) if c else np.nan\<close>\<close>

definition cell_float :: "pylib \<Rightarrow> string \<Rightarrow> error + pyfloat" where
  "cell_float lib c =
     (if c \<noteq> [] then (case float_of_str lib c of Some v \<Rightarrow> Inr v | None \<Rightarrow> Inl ValueError)
      else Inr NaN)"

text \<open>
  One pass of the loop body on the three lists built so far. The three conversions come
  before the three appends; \<^verbatim>\<open>float\<close> raises nothing but \<^verbatim>\<open>ValueError\<close>, which the
  handler answers with \<^verbatim>\<open>continue\<close>.
\<close>

definition row_step ::
  "pylib \<Rightarrow> pyfloat list \<times> pyfloat list \<times> pyfloat list \<Rightarrow> string list
     \<Rightarrow> pyfloat list \<times> pyfloat list \<times> pyfloat list" where
  "row_step lib st row =
     (case st of (time_data, ml_data, ap_data) \<Rightarrow>
        if 28 \<le> length row then
          (case cell_float lib (row ! 0) of
             Inl e \<Rightarrow> st
           | Inr time_val \<Rightarrow>
               (case cell_float lib (row ! 26) of
                  Inl e \<Rightarrow> st
                | Inr ml_val \<Rightarrow>
                    (case cell_float lib (row ! 27) of
                       Inl e \<Rightarrow> st
                     | Inr ap_val \<Rightarrow>
                         (time_data @ [time_val], ml_data @ [ml_val], ap_data @ [ap_val]))))
        else st)"

definition extract_signals ::
  "pylib \<Rightarrow> string list list \<Rightarrow> pyfloat list \<times> pyfloat list \<times> pyfloat list" where
  "extract_signals lib all_data = foldl (row_step lib) ([], [], []) (get_data_rows all_data)"

subsection \<open>Windowing (lines 235--238)\<close>

definition in_window :: "ForcePlateProcessor \<Rightarrow> pyfloat \<Rightarrow> bool" where
  "in_window self t =
     (float_ge t (of_int (start_time self)) \<and> float_le t (of_int (end_time self)))"

definition time_mask :: "ForcePlateProcessor \<Rightarrow> pyfloat list \<Rightarrow> bool list" where
  "time_mask self time_data = map (in_window self) time_data"

text \<open>
  Indexing an array with a boolean array: NumPy raises \<^verbatim>\<open>IndexError\<close> when the two
  lengths differ.
\<close>

definition bool_index :: "'a list \<Rightarrow> bool list \<Rightarrow> error + 'a list" where
  "bool_index xs tmask =
     (if length tmask = length xs then Inr (map fst (filter snd (zip xs tmask)))
      else Inl IndexError)"

definition window ::
  "ForcePlateProcessor \<Rightarrow> pyfloat list \<times> pyfloat list \<times> pyfloat list
     \<Rightarrow> error + pyfloat list \<times> pyfloat list \<times> pyfloat list" where
  "window self raw =
     (case raw of (time_data, ml_data, ap_data) \<Rightarrow>
        (let tmask = time_mask self time_data
         in on_ok (bool_index time_data tmask) (\<lambda>time_t.
            on_ok (bool_index ml_data tmask) (\<lambda>ml_t.
            on_ok (bool_index ap_data tmask) (\<lambda>ap_t.
              Inr (time_t, ml_t, ap_t))))))"

subsection \<open>The Butterworth filter (lines 100--110)\<close>

text \<open>
  \<^verbatim>\<open>int / int\<close>: \<^verbatim>\<open>ZeroDivisionError\<close> on a zero divisor, \<^verbatim>\<open>OverflowError\<close> when the
  quotient rounds to no finite binary64 value, the rounded quotient otherwise.
\<close>

definition float_overflow :: rat where
  "float_overflow = 2 ^ 1024 - 2 ^ 970"

definition int_truediv :: "pylib \<Rightarrow> int \<Rightarrow> int \<Rightarrow> error + rat" where
  "int_truediv lib a b =
     (if b = 0 then Inl ZeroDivisionError
      else if float_overflow \<le> \<bar>of_int a / of_int b\<bar> then Inl OverflowError
      else Inr (rnd lib (of_int a / of_int b)))"

text \<open>\<^verbatim>\<open>int / float\<close> with a finite divisor.\<close>

definition float_truediv :: "pylib \<Rightarrow> int \<Rightarrow> rat \<Rightarrow> error + rat" where
  "float_truediv lib a b =
     (if b = 0 then Inl ZeroDivisionError else Inr (rnd lib (of_int a / b)))"

text \<open>
  \<^verbatim>\<open>signal.butter(N, Wn, btype='low', analog=False)\<close> refuses a critical frequency
  outside \<open>0 < Wn < 1\<close> with \<^verbatim>\<open>ValueError\<close>; the design it returns has \<open>N + 1\<close>
  coefficients in each of \<open>b\<close> and \<open>a\<close>. \<^verbatim>\<open>signal.filtfilt(b, a, x)\<close> pads with
  \<open>3 * max(len(a), len(b))\<close> samples and refuses, with \<^verbatim>\<open>ValueError\<close>, a signal that
  is not longer than the padding.
\<close>

datatype ba = BA nat rat

definition butter :: "nat \<Rightarrow> rat \<Rightarrow> error + ba" where
  "butter N Wn = (if 0 < Wn \<and> Wn < 1 then Inr (BA N Wn) else Inl ValueError)"

definition filtfilt :: "pylib \<Rightarrow> ba \<Rightarrow> pyfloat list \<Rightarrow> error + pyfloat list" where
  "filtfilt lib d x =
     (case d of BA N Wn \<Rightarrow>
        if length x \<le> 3 * (N + 1) then Inl ValueError
        else Inr (filt_values lib N Wn x))"

definition normalized_cutoff :: "pylib \<Rightarrow> ForcePlateProcessor \<Rightarrow> int \<Rightarrow> error + rat" where
  "normalized_cutoff lib self sr =
     on_ok (int_truediv lib sr 2) (\<lambda>nyquist.
       float_truediv lib (filter_cutoff self) nyquist)"

definition apply_butterworth_filter ::
  "pylib \<Rightarrow> ForcePlateProcessor \<Rightarrow> pyfloat list \<Rightarrow> int \<Rightarrow> error + pyfloat list" where
  "apply_butterworth_filter lib self data sr =
     on_ok (normalized_cutoff lib self sr) (\<lambda>wn.
     on_ok (butter (filter_order self) wn) (\<lambda>d.
       filtfilt lib d data))"

subsection \<open>Filtering the window (lines 240--250)\<close>

definition filter_window ::
  "pylib \<Rightarrow> ForcePlateProcessor \<Rightarrow> int \<Rightarrow> pyfloat list \<times> pyfloat list \<times> pyfloat list
     \<Rightarrow> event list \<times> (error + pyfloat list \<times> pyfloat list)" where
  "filter_window lib self sr trimmed =
     (case trimmed of (time_t, ml_t, ap_t) \<Rightarrow>
        if length time_t = 0
        then ([PrintSamplesInWindow (length time_t),
               WarnNoData (start_time self) (end_time self)], Inr ([], []))
        else
          (case apply_butterworth_filter lib self ml_t sr of
             Inl e \<Rightarrow> ([PrintSamplesInWindow (length time_t)], Inl e)
           | Inr ml_f \<Rightarrow>
               (case apply_butterworth_filter lib self ap_t sr of
                  Inl e \<Rightarrow> ([PrintSamplesInWindow (length time_t)], Inl e)
                | Inr ap_f \<Rightarrow>
                    ([PrintSamplesInWindow (length time_t), PrintFilteringCompleted],
                     Inr (ml_f, ap_f)))))"

subsection \<open>\<^verbatim>\<open>process_csv_file\<close> (lines 112--270)\<close>

text \<open>The body of the outer \<^verbatim>\<open>try\<close> once the rows are read (lines 141--266).\<close>

definition process_rows ::
  "pylib \<Rightarrow> ForcePlateProcessor \<Rightarrow> string \<Rightarrow> string \<Rightarrow> string list list
     \<Rightarrow> event list \<times> (error + TrialData)" where
  "process_rows lib self filename sess all_data =
     (case parse_metadata self filename all_data of
        (ev1, Inl e) \<Rightarrow> (PrintTotalRows (length all_data) # ev1, Inl e)
      | (ev1, Inr (sr, sid, tn)) \<Rightarrow>
          (let raw = extract_signals lib all_data;
               ev2 = PrintTotalRows (length all_data) # ev1 @ [PrintRowsParsed (length (fst raw))]
           in case window self raw of
                Inl e \<Rightarrow> (ev2, Inl e)
              | Inr trimmed \<Rightarrow>
                  (case filter_window lib self sr trimmed of
                     (ev3, Inl e) \<Rightarrow> (ev2 @ ev3, Inl e)
                   | (ev3, Inr (ml_f, ap_f)) \<Rightarrow>
                       (ev2 @ ev3,
                        Inr \<lparr> subject_id = sid, trial_name = tn, session = sess,
                              sampling_rate = sr,
                              time_raw = fst raw, ml_raw = fst (snd raw),
                              ap_raw = snd (snd raw),
                              time_trimmed = fst trimmed,
                              ml_filtered = ml_f, ap_filtered = ap_f \<rparr>))))"

text \<open>
  The whole function: the handler of the outer \<^verbatim>\<open>try\<close> prints the exception and raises
  it again.
\<close>

definition process_csv_file ::
  "pylib \<Rightarrow> ForcePlateProcessor \<Rightarrow> csv_file \<Rightarrow> string \<Rightarrow> event list \<times> (error + TrialData)" where
  "process_csv_file lib self f sess =
     (case read_rows f of
        Inl e \<Rightarrow> ([PrintProcessing (name f), PrintErrorDetails e], Inl e)
      | Inr all_data \<Rightarrow>
          (case process_rows lib self (name f) sess all_data of
             (ev, Inl e) \<Rightarrow> (PrintProcessing (name f) # ev @ [PrintErrorDetails e], Inl e)
           | (ev, Inr td) \<Rightarrow> (PrintProcessing (name f) # ev, Inr td)))"

subsection \<open>\<^verbatim>\<open>process_all_files\<close> (lines 272--330)\<close>



text \<open>Lines 312--315: the record is appended to its subject's list, created when absent.\<close>

definition add_trial ::
  "(string \<rightharpoonup> TrialData list) \<Rightarrow> TrialData \<Rightarrow> (string \<rightharpoonup> TrialData list)" where
  "add_trial d td =
     (case d (subject_id td) of
        None \<Rightarrow> d(subject_id td \<mapsto> [td])
      | Some tds \<Rightarrow> d(subject_id td \<mapsto> tds @ [td]))"

text \<open>
  The state of the loop of lines 307--321: the processor, the two counters and the
  output so far. Every constructor of \<open>error\<close> is a subclass of \<^verbatim>\<open>Exception\<close>, so the
  handler of line 318 takes each of them.
\<close>

record loop_state =
  processor :: ForcePlateProcessor
  successful :: nat
  failed :: nat
  printed :: "event list"

definition file_step :: "pylib \<Rightarrow> loop_state \<Rightarrow> csv_file \<times> string \<Rightarrow> loop_state" where
  "file_step lib st fs =
     (case fs of (f, sess) \<Rightarrow>
        (case process_csv_file lib (processor st) f sess of
           (ev, Inr trial_data) \<Rightarrow>
             st \<lparr> processor :=
                    (processor st) \<lparr> processed_data :=
                                       add_trial (processed_data (processor st)) trial_data \<rparr>,
                  successful := successful st + 1,
                  printed := printed st @ ev \<rparr>
         | (ev, Inl e) \<Rightarrow>
             st \<lparr> failed := failed st + 1,
                  printed := printed st @ ev @ [PrintErrorProcessing (name f) e] \<rparr>))"


section \<open>Notions used to state the properties\<close>

text \<open>
  A cell is usable when it is empty or \<^verbatim>\<open>float\<close> accepts it; a data row is kept when it has
  at least 28 cells and its cells 0, 26 and 27 are usable. The value of a usable cell is
  NaN when it is empty and the parsed number otherwise.
\<close>

definition parses :: "pylib \<Rightarrow> string \<Rightarrow> bool" where
  "parses lib c = (c = [] \<or> (case float_of_str lib c of Some v \<Rightarrow> True | None \<Rightarrow> False))"

definition row_kept :: "pylib \<Rightarrow> string list \<Rightarrow> bool" where
  "row_kept lib row =
     (28 \<le> length row \<and> parses lib (row ! 0) \<and> parses lib (row ! 26) \<and> parses lib (row ! 27))"

definition cell_value :: "pylib \<Rightarrow> string \<Rightarrow> pyfloat" where
  "cell_value lib c =
     (if c = [] then NaN else (case float_of_str lib c of Some v \<Rightarrow> v | None \<Rightarrow> NaN))"

text \<open>The elements of a list at the positions where a mask of the same length is true.\<close>

definition pick :: "'a list \<Rightarrow> bool list \<Rightarrow> 'a list" where
  "pick xs bs = map fst (filter snd (zip xs bs))"

text \<open>The three windowed sequences of a file, from its rows.\<close>

definition trimmed_of ::
  "pylib \<Rightarrow> ForcePlateProcessor \<Rightarrow> string list list
     \<Rightarrow> pyfloat list \<times> pyfloat list \<times> pyfloat list" where
  "trimmed_of lib self all_data =
     (filter (in_window self) (fst (extract_signals lib all_data)),
      pick (fst (snd (extract_signals lib all_data)))
           (time_mask self (fst (extract_signals lib all_data))),
      pick (snd (snd (extract_signals lib all_data)))
           (time_mask self (fst (extract_signals lib all_data))))"

text \<open>A string that the pattern \<^verbatim>\<open>exgm\d{3}\<close> matches as a whole.\<close>

definition exgm_match :: "string \<Rightarrow> bool" where
  "exgm_match m = (length m = 7 \<and> take 4 m = ''exgm'' \<and> list_all is_digit (drop 4 m))"

text \<open>The subject id and the sampling-rate cell as read from the metadata row.\<close>

definition parsed_subject :: "string list list \<Rightarrow> string" where
  "parsed_subject all_data =
     py_strip (if 7 < length (get_metadata_row all_data) then get_metadata_row all_data ! 7 else [])"

definition rate_cell :: "string list list \<Rightarrow> string" where
  "rate_cell all_data =
     (if 2 < length (get_metadata_row all_data) then get_metadata_row all_data ! 2 else [])"

definition all_zeros :: "string \<Rightarrow> bool" where
  "all_zeros ds = list_all (\<lambda>c. c = CHR ''0'') ds"



section \<open>Concrete inputs\<close>

text \<open>
  A library to run the model on examples: \<^verbatim>\<open>float\<close> restricted to unsigned decimal integers
  (on which it is exact), exact quotients, and a filter that returns its input.
\<close>

definition digits_lib :: pylib where
  "digits_lib =
     \<lparr> float_of_str =
         (\<lambda>s. if s \<noteq> [] \<and> list_all is_digit s
              then Some (Fin (of_int (foldl (\<lambda>n c. 10 * n + digit_val c) 0 s))) else None),
       rnd = (\<lambda>x. x),
       filt_values = (\<lambda>N Wn x. x) \<rparr>"

text \<open>The processor that \<^verbatim>\<open>main\<close> builds.\<close>

definition fresh :: ForcePlateProcessor where
  "fresh = init ''data/baseline/'' ''data/intervention/''"

definition commas27 :: string where
  "commas27 = replicate 27 (CHR '','')"

text \<open>
  A trial file with an empty subject cell. Its data rows: one of 28 empty cells, one with
  time 5 and the other cells empty, one whose time cell does not parse, one of three cells.
\<close>

definition shoulder_lines :: "string list" where
  "shoulder_lines =
     [''Report'',
      ''Rate,Hz,1500 Hz,d,e,f,Subject,,i,j,k,Trial,Shoulder 1-2'',
      '''', '''',
      commas27, ''5'' @ commas27, ''x'' @ commas27, ''7,8,9'']"

definition shoulder_file :: csv_file where
  "shoulder_file = \<lparr> name = ''exgm047_shoulder1-2.csv'', contents = Inr shoulder_lines \<rparr>"

definition shoulder_trial :: TrialData where
  "shoulder_trial =
     \<lparr> subject_id = ''exgm047'', trial_name = ''Shoulder 1-2'', session = ''baseline'',
       sampling_rate = 1500, time_raw = [NaN, Fin 5], ml_raw = [NaN, NaN],
       ap_raw = [NaN, NaN], time_trimmed = [], ml_filtered = [], ap_filtered = [] \<rparr>"

text \<open>A file whose sampling-rate cell reads \<^verbatim>\<open>0 Hz\<close> and that has no data rows.\<close>

definition zero_rate_lines :: "string list" where
  "zero_rate_lines =
     [''Report'', ''Rate,Hz,0 Hz,d,e,f,Subject,exgm010,i,j,k,Trial,Tandem 1-1'']"

definition zero_rate_file :: csv_file where
  "zero_rate_file = \<lparr> name = ''exgm010_tandem.csv'', contents = Inr zero_rate_lines \<rparr>"

text \<open>A file with a single sample, at 12 seconds.\<close>

definition short_lines :: "string list" where
  "short_lines =
     [''Report'', ''Rate,Hz,1500,d,e,f,Subject,exgm011,i,j,k,Trial,Tandem 1-1'',
      '''', '''', ''12'' @ commas27]"

definition short_file :: csv_file where
  "short_file = \<lparr> name = ''exgm011_tandem.csv'', contents = Inr short_lines \<rparr>"

text \<open>An empty file, and one that cannot be decoded.\<close>

definition empty_file :: csv_file where
  "empty_file = \<lparr> name = ''trial.csv'', contents = Inr [] \<rparr>"



section \<open>Properties\<close>

subsection \<open>Signal extraction\<close>

lemma cell_float_parses:
  "cell_float lib c = (if parses lib c then Inr (cell_value lib c) else Inl ValueError)"
  by (simp add: cell_float_def parses_def cell_value_def split: option.splits)

lemma row_step_kept:
  "row_step lib (t, m, a) row =
     (if row_kept lib row
      then (t @ [cell_value lib (row ! 0)], m @ [cell_value lib (row ! 26)],
            a @ [cell_value lib (row ! 27)])
      else (t, m, a))"
  by (simp add: row_step_def row_kept_def cell_float_parses)

lemma foldl_row_step:
  "foldl (row_step lib) (t, m, a) rows =
     (t @ map (\<lambda>row. cell_value lib (row ! 0)) (filter (row_kept lib) rows),
      m @ map (\<lambda>row. cell_value lib (row ! 26)) (filter (row_kept lib) rows),
      a @ map (\<lambda>row. cell_value lib (row ! 27)) (filter (row_kept lib) rows))"
  by (induction rows arbitrary: t m a) (simp_all add: row_step_kept)

lemma get_data_rows_drop: "get_data_rows all_data = drop 4 all_data"
  by (simp add: get_data_rows_def)

lemma extract_signals_eq:
  "extract_signals lib all_data =
     (map (\<lambda>row. cell_value lib (row ! 0)) (filter (row_kept lib) (drop 4 all_data)),
      map (\<lambda>row. cell_value lib (row ! 26)) (filter (row_kept lib) (drop 4 all_data)),
      map (\<lambda>row. cell_value lib (row ! 27)) (filter (row_kept lib) (drop 4 all_data)))"
  by (simp add: extract_signals_def foldl_row_step get_data_rows_drop)

text \<open>
  Claim C1. The three sequences that the loop over the rows from index 4 builds have the
  same length, the number of kept rows: rows of at least 28 cells whose cells 0, 26 and 27
  are each empty or accepted by \<^verbatim>\<open>float\<close>. The sequences hold the values of exactly
  these rows, in order, an empty cell as NaN; a row that is not kept leaves the three
  lists as they were.
\<close>

theorem signal_extractor_rows:
  "length (fst (extract_signals lib all_data)) = length (filter (row_kept lib) (drop 4 all_data))
   \<and> length (fst (snd (extract_signals lib all_data))) = length (fst (extract_signals lib all_data))
   \<and> length (snd (snd (extract_signals lib all_data))) = length (fst (extract_signals lib all_data))
   \<and> extract_signals lib all_data =
       (map (\<lambda>row. cell_value lib (row ! 0)) (filter (row_kept lib) (drop 4 all_data)),
        map (\<lambda>row. cell_value lib (row ! 26)) (filter (row_kept lib) (drop 4 all_data)),
        map (\<lambda>row. cell_value lib (row ! 27)) (filter (row_kept lib) (drop 4 all_data)))
   \<and> row_step lib st row = (if row_kept lib row then row_step lib st row else st)"
  by (cases st) (simp add: extract_signals_eq row_step_kept)

subsection \<open>Windowing\<close>

lemma extract_lengths:
  "length (fst (snd (extract_signals lib all_data))) = length (fst (extract_signals lib all_data))"
  "length (snd (snd (extract_signals lib all_data))) = length (fst (extract_signals lib all_data))"
  by (simp_all add: extract_signals_eq)

lemma pick_self: "pick ts (map P ts) = filter P ts"
  by (induction ts) (simp_all add: pick_def)

lemma pick_length:
  "length xs = length ts \<Longrightarrow> length (pick xs (map P ts)) = length (filter P ts)"
  by (induction xs ts rule: list_induct2) (simp_all add: pick_def)

lemma pick_all:
  "length xs = length ts \<Longrightarrow> list_all P ts \<Longrightarrow> pick xs (map P ts) = xs"
  by (induction xs ts rule: list_induct2) (simp_all add: pick_def)

lemma bool_index_pick:
  "length xs = length ts \<Longrightarrow> bool_index xs (map P ts) = Inr (pick xs (map P ts))"
  by (simp add: bool_index_def pick_def)

lemma window_eq:
  "length ml = length t \<Longrightarrow> length ap = length t \<Longrightarrow>
   window self (t, ml, ap) =
     Inr (filter (in_window self) t, pick ml (time_mask self t), pick ap (time_mask self t))"
  by (simp add: window_def time_mask_def on_ok_def bool_index_pick pick_self Let_def)

text \<open>
  Claim C4. Windowing is idempotent: for a time sequence and two data sequences of its
  length, the inclusive mask between \<open>start_time\<close> and \<open>end_time\<close> (10 and 30 in the
  processor that \<^verbatim>\<open>__init__\<close> builds) applied to sequences that were already windowed with
  the same bounds returns them unchanged.
\<close>

theorem windowing_idempotent:
  assumes "length ml = length t" and "length ap = length t"
  shows "\<exists>t' ml' ap'. window self (t, ml, ap) = Inr (t', ml', ap')
           \<and> window self (t', ml', ap') = Inr (t', ml', ap')"
proof -
  let ?t = "filter (in_window self) t"
  let ?ml = "pick ml (time_mask self t)"
  let ?ap = "pick ap (time_mask self t)"
  have l1: "length ?ml = length ?t" using assms(1) by (simp add: time_mask_def pick_length)
  have l2: "length ?ap = length ?t" using assms(2) by (simp add: time_mask_def pick_length)
  have all: "list_all (in_window self) ?t" by (simp add: list_all_iff)
  have "window self (?t, ?ml, ?ap) = Inr (?t, ?ml, ?ap)"
    using l1 l2 all by (simp add: window_eq time_mask_def pick_all)
  then show ?thesis using assms by (simp add: window_eq)
qed

lemma window_extract:
  "window self (extract_signals lib all_data) =
     Inr (filter (in_window self) (fst (extract_signals lib all_data)),
          pick (fst (snd (extract_signals lib all_data)))
               (time_mask self (fst (extract_signals lib all_data))),
          pick (snd (snd (extract_signals lib all_data)))
               (time_mask self (fst (extract_signals lib all_data))))"
  using window_eq [of "fst (snd (extract_signals lib all_data))" "fst (extract_signals lib all_data)"
      "snd (snd (extract_signals lib all_data))" self]
  by (simp add: extract_lengths)

subsection \<open>One file\<close>

lemma int_of_digits_error: "int_of_digits ds = Inl e \<Longrightarrow> e = ValueError"
  by (simp add: int_of_digits_def split: if_splits)

lemma read_sampling_rate_ok: "\<exists>ev sr. read_sampling_rate self row = (ev, Inr sr)"
  by (auto simp: read_sampling_rate_def Let_def split: option.splits sum.splits
      dest: int_of_digits_error)

lemma parse_metadata_ok:
  "\<exists>ev sr sid tn. parse_metadata self filename all_data = (ev, Inr (sr, sid, tn))"
proof -
  obtain ev sr where "read_sampling_rate self (get_metadata_row all_data) = (ev, Inr sr)"
    using read_sampling_rate_ok by blast
  then show ?thesis
    by (simp add: parse_metadata_def Let_def split: prod.splits)
qed

lemma trimmed_of_lengths:
  "length (fst (snd (trimmed_of lib self all_data))) = length (fst (trimmed_of lib self all_data))"
  "length (snd (snd (trimmed_of lib self all_data))) = length (fst (trimmed_of lib self all_data))"
  by (simp_all add: trimmed_of_def time_mask_def pick_length extract_lengths)

lemma process_rows_eq:
  assumes "parse_metadata self filename all_data = (ev1, Inr (sr, sid, tn))"
  shows "process_rows lib self filename sess all_data =
     (case filter_window lib self sr (trimmed_of lib self all_data) of
        (ev3, Inl e) \<Rightarrow>
          (PrintTotalRows (length all_data) # ev1 @
             [PrintRowsParsed (length (fst (extract_signals lib all_data)))] @ ev3, Inl e)
      | (ev3, Inr (ml_f, ap_f)) \<Rightarrow>
          (PrintTotalRows (length all_data) # ev1 @
             [PrintRowsParsed (length (fst (extract_signals lib all_data)))] @ ev3,
           Inr \<lparr> subject_id = sid, trial_name = tn, session = sess, sampling_rate = sr,
                 time_raw = fst (extract_signals lib all_data),
                 ml_raw = fst (snd (extract_signals lib all_data)),
                 ap_raw = snd (snd (extract_signals lib all_data)),
                 time_trimmed = filter (in_window self) (fst (extract_signals lib all_data)),
                 ml_filtered = ml_f, ap_filtered = ap_f \<rparr>))"
  using assms
  by (simp add: process_rows_def window_extract trimmed_of_def Let_def
      split: prod.splits sum.splits)

lemma filter_window_empty:
  "filter_window lib self sr ([], ml_t, ap_t) =
     ([PrintSamplesInWindow 0, WarnNoData (start_time self) (end_time self)], Inr ([], []))"
  by (simp add: filter_window_def)

lemma apply_butterworth_filter_short:
  assumes "length x \<le> 3 * (filter_order self + 1)"
  shows "\<exists>e. apply_butterworth_filter lib self x sr = Inl e"
  using assms
  by (auto simp: apply_butterworth_filter_def on_ok_def filtfilt_def butter_def
      split: sum.splits ba.splits if_splits)

lemma filter_window_short:
  assumes "time_t \<noteq> []" and "length ml_t \<le> 3 * (filter_order self + 1)"
  shows "\<exists>e. filter_window lib self sr (time_t, ml_t, ap_t) =
           ([PrintSamplesInWindow (length time_t)], Inl e)"
proof -
  obtain e where "apply_butterworth_filter lib self ml_t sr = Inl e"
    using apply_butterworth_filter_short [OF assms(2)] by blast
  then show ?thesis using assms(1) by (simp add: filter_window_def)
qed

lemma filter_window_events:
  "filter_window lib self sr tr = (ev, r) \<Longrightarrow>
     (PrintFilteringCompleted \<in> set ev) = (fst tr \<noteq> [] \<and> (\<exists>v. r = Inr v))"
  by (cases tr) (auto simp: filter_window_def split: if_splits sum.splits)

lemma read_sampling_rate_events:
  "read_sampling_rate self row = (ev, r) \<Longrightarrow>
     set ev \<subseteq> {PrintCouldNotParseRate (expected_sampling_rate self),
                PrintCouldNotReadRate (expected_sampling_rate self)}"
  by (auto simp: read_sampling_rate_def Let_def split: option.splits sum.splits if_splits)

lemma parse_metadata_events:
  assumes "parse_metadata self filename all_data = (ev, r)"
  shows "PrintFilteringCompleted \<notin> set ev"
proof -
  obtain ev1 r1 where r: "read_sampling_rate self (get_metadata_row all_data) = (ev1, r1)"
    by (cases "read_sampling_rate self (get_metadata_row all_data)")
  have 1: "PrintFilteringCompleted \<notin> set ev1"
    using read_sampling_rate_events [OF r] by auto
  show ?thesis
    using assms r 1
    by (auto simp: parse_metadata_def Let_def check_sampling_rate_def read_subject_id_def
        read_trial_name_def split: sum.splits option.splits if_splits prod.splits)
qed

lemma process_csv_file_Inr:
  assumes "process_csv_file lib self f sess = (ev, Inr td)"
  shows "\<exists>all_data ev1 ev3.
           read_rows f = Inr all_data
         \<and> parse_metadata self (name f) all_data =
             (ev1, Inr (sampling_rate td, subject_id td, trial_name td))
         \<and> filter_window lib self (sampling_rate td) (trimmed_of lib self all_data) =
             (ev3, Inr (ml_filtered td, ap_filtered td))
         \<and> ev = PrintProcessing (name f) # PrintTotalRows (length all_data) # ev1 @
                  [PrintRowsParsed (length (fst (extract_signals lib all_data)))] @ ev3
         \<and> session td = sess
         \<and> time_raw td = fst (extract_signals lib all_data)
         \<and> ml_raw td = fst (snd (extract_signals lib all_data))
         \<and> ap_raw td = snd (snd (extract_signals lib all_data))
         \<and> time_trimmed td = filter (in_window self) (fst (extract_signals lib all_data))"
proof -
  obtain all_data where rd: "read_rows f = Inr all_data"
    using assms by (cases "read_rows f") (simp_all add: process_csv_file_def)
  obtain ev1 sr sid tn where pm: "parse_metadata self (name f) all_data = (ev1, Inr (sr, sid, tn))"
    using parse_metadata_ok by blast
  obtain ev3 r3 where fw: "filter_window lib self sr (trimmed_of lib self all_data) = (ev3, r3)"
    by (cases "filter_window lib self sr (trimmed_of lib self all_data)")
  show ?thesis
    using assms rd pm fw
    by (cases r3) (auto simp: process_csv_file_def process_rows_eq [OF pm])
qed

text \<open>
  Claim C7. When a readable file has no sample in the window, processing it returns a
  record (no exception) whose filtered sequences are empty; the warning of line 243 is
  emitted and the filter is not run (line 250 is not reached).
\<close>

theorem empty_window_skips_filter:
  assumes "read_rows f = Inr all_data"
      and "filter (in_window self) (fst (extract_signals lib all_data)) = []"
  shows "\<exists>ev td. process_csv_file lib self f sess = (ev, Inr td)
           \<and> time_trimmed td = [] \<and> ml_filtered td = [] \<and> ap_filtered td = []
           \<and> WarnNoData (start_time self) (end_time self) \<in> set ev
           \<and> PrintFilteringCompleted \<notin> set ev"
proof -
  obtain ev1 sr sid tn where pm: "parse_metadata self (name f) all_data = (ev1, Inr (sr, sid, tn))"
    using parse_metadata_ok by blast
  have tr: "fst (trimmed_of lib self all_data) = []"
    using assms(2) by (simp add: trimmed_of_def)
  have fw: "filter_window lib self sr (trimmed_of lib self all_data) =
              ([PrintSamplesInWindow 0, WarnNoData (start_time self) (end_time self)],
               Inr ([], []))"
    using tr filter_window_empty
    by (cases "trimmed_of lib self all_data") simp
  show ?thesis
    using assms parse_metadata_events [OF pm]
    by (simp add: process_csv_file_def process_rows_eq [OF pm] fw)
qed

text \<open>
  Claim C9. The guard of line 242 covers the empty window only: when the window of a
  readable file is not empty and holds at most 15 samples (the padding of the 4th-order
  design), \<^verbatim>\<open>process_csv_file\<close> raises, and the loop of \<^verbatim>\<open>process_all_files\<close> counts
  the file as failed, prints the error and leaves the aggregate as it was.
\<close>

theorem short_window_file_fails:
  assumes "read_rows f = Inr all_data"
      and "filter_order (processor st) = 4"
      and "filter (in_window (processor st)) (fst (extract_signals lib all_data)) \<noteq> []"
      and "length (filter (in_window (processor st)) (fst (extract_signals lib all_data))) \<le> 15"
  shows "\<exists>ev e. process_csv_file lib (processor st) f sess = (ev, Inl e)
           \<and> processed_data (processor (file_step lib st (f, sess))) = processed_data (processor st)
           \<and> successful (file_step lib st (f, sess)) = successful st
           \<and> failed (file_step lib st (f, sess)) = failed st + 1
           \<and> PrintErrorProcessing (name f) e \<in> set (printed (file_step lib st (f, sess)))"
proof -
  let ?self = "processor st"
  obtain ev1 sr sid tn where pm: "parse_metadata ?self (name f) all_data = (ev1, Inr (sr, sid, tn))"
    using parse_metadata_ok by blast
  obtain tt mt apt where tr: "trimmed_of lib ?self all_data = (tt, mt, apt)"
    by (cases "trimmed_of lib ?self all_data")
  have tt: "tt = filter (in_window ?self) (fst (extract_signals lib all_data))"
    using tr by (simp add: trimmed_of_def)
  have "length mt = length tt"
    using trimmed_of_lengths(1) [of lib ?self all_data] tr by simp
  then have "length mt \<le> 3 * (filter_order ?self + 1)"
    using assms(2,4) tt by simp
  moreover have "tt \<noteq> []" using assms(3) tt by simp
  ultimately obtain e where
    fw: "filter_window lib ?self sr (tt, mt, apt) = ([PrintSamplesInWindow (length tt)], Inl e)"
    using filter_window_short by blast
  have "\<exists>ev. process_csv_file lib ?self f sess = (ev, Inl e)"
    using assms(1) by (simp add: process_csv_file_def process_rows_eq [OF pm] tr fw)
  then obtain ev where pc: "process_csv_file lib ?self f sess = (ev, Inl e)" by blast
  show ?thesis
    using pc by (simp add: file_step_def)
qed

text \<open>
  Claim C10. A row of at least 28 cells with an empty time cell (and usable cells 26 and
  27) is appended to the raw lists with time NaN; the windowed time sequence of a record
  is the raw one filtered by the window and never holds NaN.
\<close>

theorem trimmed_time_has_no_nan:
  assumes "process_csv_file lib self f sess = (ev, Inr td)"
  shows "NaN \<notin> set (time_trimmed td)
       \<and> time_trimmed td = filter (in_window self) (time_raw td)
       \<and> (\<forall>row st. 28 \<le> length row \<and> row ! 0 = [] \<and> parses lib (row ! 26) \<and> parses lib (row ! 27)
            \<longrightarrow> row_step lib st row =
                 (fst st @ [NaN], fst (snd st) @ [cell_value lib (row ! 26)],
                  snd (snd st) @ [cell_value lib (row ! 27)]))"
proof -
  have nan: "\<not> in_window self NaN" by (simp add: in_window_def)
  obtain all_data where
    "time_raw td = fst (extract_signals lib all_data)"
    "time_trimmed td = filter (in_window self) (fst (extract_signals lib all_data))"
    using process_csv_file_Inr [OF assms] by blast
  then have 1: "time_trimmed td = filter (in_window self) (time_raw td)" by simp
  have 2: "NaN \<notin> set (time_trimmed td)" using 1 nan by auto
  have 3: "row_step lib st row =
            (fst st @ [NaN], fst (snd st) @ [cell_value lib (row ! 26)],
             snd (snd st) @ [cell_value lib (row ! 27)])"
    if "28 \<le> length row \<and> row ! 0 = [] \<and> parses lib (row ! 26) \<and> parses lib (row ! 27)"
    for row st
    using that by (cases st) (simp add: row_step_kept row_kept_def parses_def cell_value_def)
  show ?thesis using 1 2 3 by blast
qed

subsection \<open>Subject id\<close>

lemma exgm_prefix_match: "exgm_prefix s = (7 \<le> length s \<and> exgm_match (take 7 s))"
  by (auto simp: exgm_prefix_def exgm_match_def min_def take_drop)

lemma exgm_prefix_append: "exgm_match m \<Longrightarrow> exgm_prefix (m @ post)"
  by (simp add: exgm_prefix_match exgm_match_def)

lemma search_exgm_None:
  "search_exgm s = None \<Longrightarrow> s = pre @ m @ post \<Longrightarrow> \<not> exgm_match m"
proof (induction s arbitrary: pre)
  case Nil
  then show ?case by (simp add: exgm_match_def)
next
  case (Cons c cs)
  from Cons.prems(1) have np: "\<not> exgm_prefix (c # cs)" and sn: "search_exgm cs = None"
    by (simp_all split: if_splits)
  show ?case
  proof (cases pre)
    case Nil
    with Cons.prems(2) np show ?thesis using exgm_prefix_append [of m post] by auto
  next
    case (Cons p pre')
    with Cons.prems(2) have "cs = pre' @ m @ post" by simp
    with Cons.IH [OF sn] show ?thesis by blast
  qed
qed

lemma search_exgm_Some:
  "search_exgm s = Some m \<Longrightarrow>
     exgm_match m \<and>
     (\<exists>pre post. s = pre @ m @ post \<and>
        (\<forall>pre' m' post'. s = pre' @ m' @ post' \<and> exgm_match m' \<longrightarrow> length pre \<le> length pre'))"
proof (induction s)
  case Nil
  then show ?case by simp
next
  case (Cons c cs)
  show ?case
  proof (cases "exgm_prefix (c # cs)")
    case True
    with Cons.prems have m: "m = take 7 (c # cs)" by simp
    have "exgm_match m" using True m by (simp add: exgm_prefix_match)
    moreover have "c # cs = [] @ m @ drop 7 (c # cs)" using m by simp
    ultimately show ?thesis by (metis le0 list.size(3))
  next
    case False
    with Cons.prems have sm: "search_exgm cs = Some m" by simp
    from Cons.IH [OF sm] obtain pre post where
      mm: "exgm_match m" and eq: "cs = pre @ m @ post" and
      least: "\<forall>pre' m' post'. cs = pre' @ m' @ post' \<and> exgm_match m' \<longrightarrow> length pre \<le> length pre'"
      by blast
    have "length (c # pre) \<le> length pre'"
      if "c # cs = pre' @ m' @ post' \<and> exgm_match m'" for pre' m' post'
    proof (cases pre')
      case Nil
      with that False show ?thesis using exgm_prefix_append [of m' post'] by auto
    next
      case (Cons p q)
      with that have "cs = q @ m' @ post'" by simp
      with least that have "length pre \<le> length q" by blast
      with Cons show ?thesis by simp
    qed
    moreover have "c # cs = (c # pre) @ m @ post" using eq by simp
    ultimately show ?thesis using mm by blast
  qed
qed

lemma process_csv_file_subject:
  assumes "process_csv_file lib self f sess = (ev, Inr td)" and "read_rows f = Inr all_data"
  shows "\<exists>ev3. read_subject_id (name f) (get_metadata_row all_data) = (ev3, subject_id td)
           \<and> set ev3 \<subseteq> set ev"
proof -
  obtain all_data' ev1 ev3 where rd: "read_rows f = Inr all_data'"
    and pm: "parse_metadata self (name f) all_data' =
      (ev1, Inr (sampling_rate td, subject_id td, trial_name td))"
    and ev: "ev = PrintProcessing (name f) # PrintTotalRows (length all_data') # ev1 @
                  [PrintRowsParsed (length (fst (extract_signals lib all_data')))] @ ev3"
    using process_csv_file_Inr [OF assms(1)] by blast
  have same: "all_data' = all_data" using rd assms(2) by simp
  have sub: "set ev1 \<subseteq> set ev" using ev by auto
  show ?thesis
    using pm sub unfolding same
    by (auto simp: parse_metadata_def Let_def split: prod.splits sum.splits)
qed

text \<open>
  Claim C5. When the subject id read from the metadata row fails \<^verbatim>\<open>^exgm\d{3}$\<close>, the
  record's subject id is the leftmost substring of the file name that \<^verbatim>\<open>exgm\d{3}\<close>
  matches if there is one, and the invalid value unchanged otherwise; the warning of
  line 175 is emitted in both cases.
\<close>

theorem subject_id_recovery:
  assumes "process_csv_file lib self f sess = (ev, Inr td)"
      and "read_rows f = Inr all_data"
      and "\<not> validate_subject_id (parsed_subject all_data)"
  shows "subject_id td =
           (case search_exgm (name f) of Some m \<Rightarrow> m | None \<Rightarrow> parsed_subject all_data)
       \<and> WarnInvalidSubject (parsed_subject all_data) \<in> set ev
       \<and> (\<forall>m. search_exgm (name f) = Some m \<longrightarrow>
             exgm_match m \<and>
             (\<exists>pre post. name f = pre @ m @ post \<and>
                (\<forall>pre' m' post'. name f = pre' @ m' @ post' \<and> exgm_match m'
                    \<longrightarrow> length pre \<le> length pre')))
       \<and> (search_exgm (name f) = None \<longrightarrow>
             (\<forall>pre m post. name f = pre @ m @ post \<longrightarrow> \<not> exgm_match m))"
proof -
  obtain ev3 where rs: "read_subject_id (name f) (get_metadata_row all_data) = (ev3, subject_id td)"
    and sub: "set ev3 \<subseteq> set ev"
    using process_csv_file_subject [OF assms(1,2)] by blast
  have 1: "subject_id td =
           (case search_exgm (name f) of Some m \<Rightarrow> m | None \<Rightarrow> parsed_subject all_data)"
    and "WarnInvalidSubject (parsed_subject all_data) \<in> set ev3"
    using rs assms(3)
    by (auto simp: read_subject_id_def parsed_subject_def Let_def split: option.splits)
  then have 2: "WarnInvalidSubject (parsed_subject all_data) \<in> set ev" using sub by blast
  show ?thesis
    using 1 2 search_exgm_Some [of "name f"] search_exgm_None [of "name f"] by blast
qed

subsection \<open>Sampling rate\<close>

lemma digit_val_nonneg: "0 \<le> digit_val c"
  by (simp add: digit_val_def)

lemma digit_val_zero: "(digit_val c = 0) = (c = CHR ''0'')"
  by (simp add: digit_val_def)

lemma digits_value_nonneg:
  "0 \<le> n \<Longrightarrow> 0 \<le> foldl (\<lambda>n c. 10 * n + digit_val c) n ds"
proof (induction ds arbitrary: n)
  case Nil
  then show ?case by simp
next
  case (Cons c ds)
  have "0 \<le> 10 * n + digit_val c" using Cons.prems digit_val_nonneg [of c] by simp
  then show ?case using Cons.IH by simp
qed

lemma digits_value_zero:
  "0 \<le> n \<Longrightarrow> list_all is_digit ds \<Longrightarrow>
     (foldl (\<lambda>n c. 10 * n + digit_val c) n ds = 0) = (n = 0 \<and> all_zeros ds)"
proof (induction ds arbitrary: n)
  case Nil
  then show ?case by (simp add: all_zeros_def)
next
  case (Cons c ds)
  have nn: "0 \<le> 10 * n + digit_val c" using Cons.prems(1) digit_val_nonneg [of c] by simp
  have dig: "is_digit c" "list_all is_digit ds" using Cons.prems(2) by simp_all
  have "(10 * n + digit_val c = 0) = (n = 0 \<and> c = CHR ''0'')"
    using Cons.prems(1) digit_val_nonneg [of c] digit_val_zero [of c] by auto
  then show ?case using Cons.IH [OF nn dig(2)] by (auto simp: all_zeros_def)
qed

lemma search_digits_Some: "search_digits s = Some ds \<Longrightarrow> list_all is_digit ds \<and> ds \<noteq> []"
proof -
  assume a: "search_digits s = Some ds"
  let ?r = "dropWhile (\<lambda>c. \<not> is_digit c) s"
  from a have ne: "?r \<noteq> []" and ds: "ds = takeWhile is_digit ?r"
    by (auto simp: search_digits_def Let_def split: if_splits)
  have "list_all is_digit ds" using ds by (auto simp: list_all_iff dest: set_takeWhileD)
  moreover have "is_digit (hd ?r)" using ne hd_dropWhile [of "\<lambda>c. \<not> is_digit c" s] by simp
  then have "ds \<noteq> []" using ne ds by (cases ?r) auto
  ultimately show ?thesis by simp
qed

lemma read_sampling_rate_value:
  assumes "read_sampling_rate self row = (ev, Inr sr)" and "0 < expected_sampling_rate self"
  shows "0 \<le> sr \<and>
         (sr = 0) = (case search_digits (if 2 < length row then row ! 2 else []) of
                       Some ds \<Rightarrow> length ds \<le> int_max_str_digits \<and> all_zeros ds
                     | None \<Rightarrow> False)"
proof (cases "search_digits (if 2 < length row then row ! 2 else [])")
  case None
  then show ?thesis using assms by (auto simp: read_sampling_rate_def Let_def)
next
  case (Some ds)
  have dig: "list_all is_digit ds" using search_digits_Some [OF Some] by simp
  show ?thesis
  proof (cases "int_max_str_digits < length ds")
    case True
    then show ?thesis using assms Some
      by (auto simp: read_sampling_rate_def Let_def int_of_digits_def)
  next
    case False
    then have "sr = foldl (\<lambda>n c. 10 * n + digit_val c) 0 ds"
      using assms Some by (auto simp: read_sampling_rate_def Let_def int_of_digits_def)
    then show ?thesis
      using False Some digits_value_nonneg [of 0 ds] digits_value_zero [of 0 ds] dig
      by auto
  qed
qed

lemma zero_rate_no_filter:
  assumes "rnd lib 0 = 0"
  shows "apply_butterworth_filter lib self x 0 = Inl ZeroDivisionError"
  using assms
  by (simp add: apply_butterworth_filter_def normalized_cutoff_def on_ok_def int_truediv_def
      float_truediv_def float_overflow_def)

text \<open>
  Claim C8, as amended. The sampling rate of a record is a non-negative integer. It is
  zero exactly when the first run of digits of the sampling-rate cell has at most
  \<open>int_max_str_digits\<close> digits, all of them zero; a record then exists only for an empty
  window, since the filter divides by half the rate.
\<close>

theorem sampling_rate_nonnegative:
  assumes "process_csv_file lib self f sess = (ev, Inr td)"
      and "read_rows f = Inr all_data"
      and "0 < expected_sampling_rate self"
  shows "0 \<le> sampling_rate td
       \<and> (sampling_rate td = 0) =
           (case search_digits (rate_cell all_data) of
              Some ds \<Rightarrow> length ds \<le> int_max_str_digits \<and> all_zeros ds
            | None \<Rightarrow> False)
       \<and> (rnd lib 0 = 0 \<and> sampling_rate td = 0 \<longrightarrow> time_trimmed td = [])"
proof -
  obtain all_data' ev1 ev3 where rd: "read_rows f = Inr all_data'"
    and pm: "parse_metadata self (name f) all_data' =
      (ev1, Inr (sampling_rate td, subject_id td, trial_name td))"
    and fw: "filter_window lib self (sampling_rate td) (trimmed_of lib self all_data') =
             (ev3, Inr (ml_filtered td, ap_filtered td))"
    and tt: "time_trimmed td = filter (in_window self) (fst (extract_signals lib all_data'))"
    using process_csv_file_Inr [OF assms(1)] by blast
  have same: "all_data' = all_data" using rd assms(2) by simp
  obtain ev0 where rs: "read_sampling_rate self (get_metadata_row all_data) = (ev0, Inr (sampling_rate td))"
    using pm unfolding same
    by (auto simp: parse_metadata_def Let_def split: prod.splits sum.splits)
  have 1: "0 \<le> sampling_rate td \<and>
       (sampling_rate td = 0) =
           (case search_digits (rate_cell all_data) of
              Some ds \<Rightarrow> length ds \<le> int_max_str_digits \<and> all_zeros ds
            | None \<Rightarrow> False)"
    using read_sampling_rate_value [OF rs assms(3)] by (simp add: rate_cell_def)
  have 2: "time_trimmed td = []" if "rnd lib 0 = 0 \<and> sampling_rate td = 0"
  proof (rule ccontr)
    assume ne: "time_trimmed td \<noteq> []"
    obtain t m a where tr: "trimmed_of lib self all_data = (t, m, a)"
      by (cases "trimmed_of lib self all_data")
    then have "t \<noteq> []" using ne tt same by (simp add: trimmed_of_def)
    then show False
      using fw that tr zero_rate_no_filter [of lib self m] unfolding same
      by (simp add: filter_window_def)
  qed
  show ?thesis using 1 2 by blast
qed

subsection \<open>An empty subject cell\<close>

lemma validate_subject_id_Nil: "\<not> validate_subject_id []"
  by (simp add: validate_subject_id_def exgm_prefix_def)

subsection \<open>Normalized cutoff\<close>

lemma normalized_cutoff_eq:
  assumes "sr \<noteq> 0" and "\<bar>of_int sr / 2\<bar> < float_overflow" and "rnd lib (of_int sr / 2) \<noteq> 0"
  shows "normalized_cutoff lib self sr =
           Inr (rnd lib (of_int (filter_cutoff self) / rnd lib (of_int sr / 2)))"
  using assms
  by (simp add: normalized_cutoff_def on_ok_def int_truediv_def float_truediv_def)

lemma float_overflow_big: "(750 :: rat) < float_overflow"
proof -
  have "(2::rat) ^ 970 * 2 \<le> 2 ^ 970 * 2 ^ 54" by simp
  then have "(2::rat) ^ 971 \<le> 2 ^ 1024" by (simp add: power_add [symmetric])
  have "(750::rat) < 2 ^ 10" by simp
  also have "\<dots> \<le> 2 ^ 970" by (rule power_increasing) simp_all
  also have "\<dots> = 2 ^ 971 - 2 ^ 970" by simp
  also have "\<dots> \<le> 2 ^ 1024 - 2 ^ 970" using \<open>(2::rat) ^ 971 \<le> 2 ^ 1024\<close> by simp
  finally show ?thesis by (simp add: float_overflow_def)
qed

text \<open>
  Claim C6. The critical frequency that \<^verbatim>\<open>apply_butterworth_filter\<close> passes to
  \<^verbatim>\<open>butter\<close> is the cutoff divided by half the sampling rate, both quotients rounded to
  binary64; for the rate 1500 and the cutoff 5 it is the rounding of \<open>5 / 750\<close>, within
  \<open>10\<^sup>-\<^sup>6\<close> of 0.006667. The hypotheses are two facts of round-to-nearest: 750 is
  representable, and \<open>1 / 150\<close> is rounded with a relative error of at most \<open>2\<^sup>-\<^sup>5\<^sup>3\<close>.
\<close>

theorem normalized_cutoff_value:
  assumes "rnd lib 750 = 750"
      and "\<bar>rnd lib (1 / 150) - 1 / 150\<bar> \<le> (1 / 150) / 2 ^ 53"
  shows "normalized_cutoff lib (init b i) 1500 = Inr (rnd lib (5 / (1500 / 2)))
       \<and> \<bar>rnd lib (5 / (1500 / 2)) - 6667 / 1000000\<bar> \<le> 1 / 1000000
       \<and> apply_butterworth_filter lib (init b i) x 1500 =
           on_ok (butter 4 (rnd lib (5 / (1500 / 2)))) (\<lambda>d. filtfilt lib d x)
       \<and> (\<forall>self sr. sr \<noteq> 0 \<and> \<bar>of_int sr / 2\<bar> < float_overflow \<and> rnd lib (of_int sr / 2) \<noteq> 0
            \<longrightarrow> apply_butterworth_filter lib self x sr =
                  on_ok (butter (filter_order self)
                           (rnd lib (of_int (filter_cutoff self) / rnd lib (of_int sr / 2))))
                        (\<lambda>d. filtfilt lib d x))"
proof -
  have eq: "(5::rat) / (1500 / 2) = 1 / 150" by simp
  have nc: "normalized_cutoff lib (init b i) 1500 = Inr (rnd lib (1 / 150))"
    using normalized_cutoff_eq [of 1500 lib "init b i"] assms(1) float_overflow_big
    by (simp add: init_def)
  have "(1 / 150) / 2 ^ 53 \<le> (1 / 150 :: rat) / 2 ^ 20"
    by (rule divide_left_mono) simp_all
  also have "\<dots> \<le> 1 / 2000000" by simp
  finally have "\<bar>rnd lib (1 / 150) - 1 / 150\<bar> \<le> 1 / 2000000"
    using assms(2) by linarith
  then have bd: "\<bar>rnd lib (1 / 150) - 6667 / 1000000\<bar> \<le> 1 / 1000000"
    by linarith
  have ap: "apply_butterworth_filter lib (init b i) x 1500 =
           on_ok (butter 4 (rnd lib (1 / 150))) (\<lambda>d. filtfilt lib d x)"
  proof -
    have fo: "filter_order (init b i) = 4" by (simp add: init_def)
    show ?thesis by (simp add: apply_butterworth_filter_def nc on_ok_def fo)
  qed
  have gen: "apply_butterworth_filter lib self x sr =
                  on_ok (butter (filter_order self)
                           (rnd lib (of_int (filter_cutoff self) / rnd lib (of_int sr / 2))))
                        (\<lambda>d. filtfilt lib d x)"
    if "sr \<noteq> 0 \<and> \<bar>of_int sr / 2\<bar> < float_overflow \<and> rnd lib (of_int sr / 2) \<noteq> 0"
    for self sr
    using that normalized_cutoff_eq [of sr lib self]
    by (simp add: apply_butterworth_filter_def on_ok_def)
  show ?thesis unfolding eq using nc bd ap gen by blast
qed

subsection \<open>The batch\<close>























section \<open>The properties at concrete inputs\<close>

lemma read_shoulder: "read_rows shoulder_file = Inr (map tokenize shoulder_lines)"
  by (simp add: read_rows_def shoulder_file_def on_ok_def)

lemma read_short: "read_rows short_file = Inr (map tokenize short_lines)"
  by (simp add: read_rows_def short_file_def on_ok_def)

lemma read_zero_rate: "read_rows zero_rate_file = Inr (map tokenize zero_rate_lines)"
  by (simp add: read_rows_def zero_rate_file_def on_ok_def)

lemma run_shoulder:
  "process_csv_file digits_lib fresh shoulder_file ''baseline'' =
     ([PrintProcessing ''exgm047_shoulder1-2.csv'', PrintTotalRows 8,
       WarnInvalidSubject [], PrintUsingFilenameSubject ''exgm047'',
       PrintRowsParsed 2, PrintSamplesInWindow 0, WarnNoData 10 30],
      Inr shoulder_trial)"
  by code_simp

lemma shoulder_raw_time:
  "fst (extract_signals digits_lib (map tokenize shoulder_lines)) = [NaN, Fin 5]"
  by code_simp

text \<open>
  C1 on the rows of the sample file: of its four data rows, two are kept.
\<close>

theorem signal_extractor_rows_witness:
  "extract_signals digits_lib (map tokenize shoulder_lines) = ([NaN, Fin 5], [NaN, NaN], [NaN, NaN])
   \<and> length (filter (row_kept digits_lib) (drop 4 (map tokenize shoulder_lines))) = 2
   \<and> length (drop 4 (map tokenize shoulder_lines)) = 4"
proof -
  have e: "extract_signals digits_lib (map tokenize shoulder_lines) =
             ([NaN, Fin 5], [NaN, NaN], [NaN, NaN])"
    by code_simp
  have l: "length (drop 4 (map tokenize shoulder_lines)) = 4"
    by (simp add: shoulder_lines_def)
  have "length (fst (extract_signals digits_lib (map tokenize shoulder_lines))) =
          length (filter (row_kept digits_lib) (drop 4 (map tokenize shoulder_lines)))"
    using signal_extractor_rows [of digits_lib "map tokenize shoulder_lines" "([], [], [])" "[]"]
    by (rule conjunct1)
  then show ?thesis using e l by simp
qed

text \<open>
  C4 on five samples: the samples at 10 and 30 seconds stay, those at 5 and 31 and the
  one with time NaN go, and a second windowing changes nothing.
\<close>

theorem windowing_idempotent_witness:
  "window fresh ([Fin 5, Fin 10, NaN, Fin 30, Fin 31],
                 [Fin 1, Fin 2, Fin 3, Fin 4, Fin 5],
                 [NaN, Fin 0, Fin 0, PInf, Fin 0]) =
     Inr ([Fin 10, Fin 30], [Fin 2, Fin 4], [Fin 0, PInf])
   \<and> window fresh ([Fin 10, Fin 30], [Fin 2, Fin 4], [Fin 0, PInf]) =
     Inr ([Fin 10, Fin 30], [Fin 2, Fin 4], [Fin 0, PInf])"
proof -
  have e: "window fresh ([Fin 5, Fin 10, NaN, Fin 30, Fin 31],
                 [Fin 1, Fin 2, Fin 3, Fin 4, Fin 5],
                 [NaN, Fin 0, Fin 0, PInf, Fin 0]) =
     Inr ([Fin 10, Fin 30], [Fin 2, Fin 4], [Fin 0, PInf])"
    by code_simp
  show ?thesis
    using windowing_idempotent [of "[Fin 1, Fin 2, Fin 3, Fin 4, Fin 5]"
        "[Fin 5, Fin 10, NaN, Fin 30, Fin 31]" "[NaN, Fin 0, Fin 0, PInf, Fin 0]" fresh] e
    by simp
qed

text \<open>
  C5 on the file \<^verbatim>\<open>exgm047_shoulder1-2.csv\<close> with an empty subject cell.
\<close>

theorem subject_id_recovery_witness:
  "parsed_subject (map tokenize shoulder_lines) = []
   \<and> \<not> validate_subject_id (parsed_subject (map tokenize shoulder_lines))
   \<and> snd (process_csv_file digits_lib fresh shoulder_file ''baseline'') = Inr shoulder_trial
   \<and> subject_id shoulder_trial = ''exgm047''"
proof -
  have p: "parsed_subject (map tokenize shoulder_lines) = []" by code_simp
  have v: "\<not> validate_subject_id (parsed_subject (map tokenize shoulder_lines))"
    unfolding p by (rule validate_subject_id_Nil)
  have s: "search_exgm (name shoulder_file) = Some ''exgm047''" by code_simp
  show ?thesis
    using subject_id_recovery [OF run_shoulder read_shoulder v] p v s run_shoulder by simp
qed

text \<open>
  C7 on the sample file, whose only timed sample is at 5 seconds.
\<close>

theorem empty_window_skips_filter_witness:
  "filter (in_window fresh) (fst (extract_signals digits_lib (map tokenize shoulder_lines))) = []
   \<and> (\<exists>ev td. process_csv_file digits_lib fresh shoulder_file ''baseline'' = (ev, Inr td)
           \<and> time_trimmed td = [] \<and> ml_filtered td = [] \<and> ap_filtered td = []
           \<and> WarnNoData 10 30 \<in> set ev
           \<and> PrintFilteringCompleted \<notin> set ev)"
proof -
  have w: "filter (in_window fresh)
             (fst (extract_signals digits_lib (map tokenize shoulder_lines))) = []"
    by code_simp
  have b: "start_time fresh = 10" "end_time fresh = 30" by (simp_all add: fresh_def init_def)
  show ?thesis
    using empty_window_skips_filter [OF read_shoulder w, of "''baseline''"] w b by simp
qed

text \<open>
  C9 on a file with one sample in the window.
\<close>

theorem short_window_file_fails_witness:
  "length (filter (in_window fresh)
             (fst (extract_signals digits_lib (map tokenize short_lines)))) = 1
   \<and> (\<exists>ev e. process_csv_file digits_lib fresh short_file ''baseline'' = (ev, Inl e)
        \<and> processed_data (processor (file_step digits_lib
             \<lparr> processor = fresh, successful = 0, failed = 0, printed = [] \<rparr>
             (short_file, ''baseline''))) = Map.empty
        \<and> failed (file_step digits_lib
             \<lparr> processor = fresh, successful = 0, failed = 0, printed = [] \<rparr>
             (short_file, ''baseline'')) = 1)"
proof -
  let ?st = "\<lparr> processor = fresh, successful = 0, failed = 0, printed = [] \<rparr>"
  have w: "filter (in_window fresh)
             (fst (extract_signals digits_lib (map tokenize short_lines))) = [Fin 12]"
    by code_simp
  have o: "filter_order (processor ?st) = 4" by (simp add: fresh_def init_def)
  have d: "processed_data fresh = Map.empty" by (simp add: fresh_def init_def)
  have n: "filter (in_window (processor ?st))
             (fst (extract_signals digits_lib (map tokenize short_lines))) \<noteq> []"
    and l: "length (filter (in_window (processor ?st))
             (fst (extract_signals digits_lib (map tokenize short_lines)))) \<le> 15"
    using w by simp_all
  have "\<exists>ev e. process_csv_file digits_lib (processor ?st) short_file ''baseline'' = (ev, Inl e)
        \<and> processed_data (processor (file_step digits_lib ?st (short_file, ''baseline''))) =
            processed_data (processor ?st)
        \<and> successful (file_step digits_lib ?st (short_file, ''baseline'')) = successful ?st
        \<and> failed (file_step digits_lib ?st (short_file, ''baseline'')) = failed ?st + 1
        \<and> PrintErrorProcessing (name short_file) e
            \<in> set (printed (file_step digits_lib ?st (short_file, ''baseline'')))"
    by (rule short_window_file_fails [OF read_short o n l])
  then show ?thesis using w d by auto
qed

text \<open>
  C10 on the sample file: NaN is in the raw time sequence and not in the windowed one.
\<close>

theorem trimmed_time_has_no_nan_witness:
  "snd (process_csv_file digits_lib fresh shoulder_file ''baseline'') = Inr shoulder_trial
   \<and> NaN \<in> set (time_raw shoulder_trial)
   \<and> NaN \<notin> set (time_trimmed shoulder_trial)"
proof -
  have r: "NaN \<in> set (time_raw shoulder_trial)" by (simp add: shoulder_trial_def)
  have "NaN \<notin> set (time_trimmed shoulder_trial)"
    using trimmed_time_has_no_nan [OF run_shoulder] by (rule conjunct1)
  then show ?thesis using r run_shoulder by simp
qed

text \<open>
  C8 as stated fails: a file whose sampling-rate cell reads \<^verbatim>\<open>0 Hz\<close> and that has no
  sample in the window gives a record with sampling rate 0.
\<close>

theorem sampling_rate_positive_counterexample:
  "snd (process_csv_file digits_lib fresh zero_rate_file ''baseline'') =
     Inr \<lparr> subject_id = ''exgm010'', trial_name = ''Tandem 1-1'', session = ''baseline'',
           sampling_rate = 0, time_raw = [], ml_raw = [], ap_raw = [],
           time_trimmed = [], ml_filtered = [], ap_filtered = [] \<rparr>
   \<and> \<not> 0 < sampling_rate
            \<lparr> subject_id = ''exgm010'', trial_name = ''Tandem 1-1'', session = ''baseline'',
              sampling_rate = 0, time_raw = [], ml_raw = [], ap_raw = [],
              time_trimmed = [], ml_filtered = [], ap_filtered = [] \<rparr>"
  by code_simp

text \<open>
  The amended C8 on the sample file.
\<close>

theorem sampling_rate_nonnegative_witness:
  "0 < expected_sampling_rate fresh
   \<and> snd (process_csv_file digits_lib fresh shoulder_file ''baseline'') = Inr shoulder_trial
   \<and> search_digits (rate_cell (map tokenize shoulder_lines)) = Some ''1500''
   \<and> 0 \<le> sampling_rate shoulder_trial \<and> sampling_rate shoulder_trial \<noteq> 0"
proof -
  have e: "0 < expected_sampling_rate fresh" by (simp add: fresh_def init_def)
  have s: "search_digits (rate_cell (map tokenize shoulder_lines)) = Some ''1500''"
    by code_simp
  have z: "\<not> all_zeros ''1500''" by (simp add: all_zeros_def)
  show ?thesis
    using sampling_rate_nonnegative [OF run_shoulder read_shoulder e] e s z run_shoulder
    by simp
qed

text \<open>
  Claim C3. The code at an empty file, which has no metadata row. The sampling rate is the
  default 1500 with the message of line 157, as the claim says. The subject id and the
  trial name of the record are the empty string, where the claim, and the handlers of
  lines 170--172 and 186--188, say \<^verbatim>\<open>unknown\<close>: the conditional expressions of
  lines 168 and 184 never raise, so these handlers are not reached.
\<close>

theorem missing_metadata_run:
  "get_metadata_row (map tokenize []) = []
   \<and> process_csv_file digits_lib fresh empty_file ''baseline'' =
       ([PrintProcessing ''trial.csv'', PrintTotalRows 0, PrintCouldNotParseRate 1500,
         WarnInvalidSubject [], WarnUnexpectedTrial [], PrintRowsParsed 0,
         PrintSamplesInWindow 0, WarnNoData 10 30],
        Inr \<lparr> subject_id = [], trial_name = [], session = ''baseline'',
              sampling_rate = 1500, time_raw = [], ml_raw = [], ap_raw = [],
              time_trimmed = [], ml_filtered = [], ap_filtered = [] \<rparr>)
   \<and> [] \<noteq> ''unknown''"
  by code_simp

text \<open>
  C6 with exact quotients.
\<close>

theorem normalized_cutoff_value_witness:
  "normalized_cutoff digits_lib fresh 1500 = Inr (1 / 150)
   \<and> \<bar>(1 / 150 :: rat) - 6667 / 1000000\<bar> \<le> 1 / 1000000"
proof -
  have r: "rnd digits_lib = (\<lambda>x. x)" by (simp add: digits_lib_def)
  show ?thesis
    using normalized_cutoff_value [of digits_lib "''data/baseline/''" "''data/intervention/''"]
    by (simp add: r fresh_def)
qed





end
